theory Spec2Isabelle
  imports Main "HOL-Library.Char_ord"
begin

section \<open>Strings\<close>

text \<open>
  Go strings are modelled as \<open>string\<close> (lists of 8-bit characters). All identifiers and
  struct tags handled by the library are ASCII in practice; on ASCII text a rune is a byte,
  \<open>strings.ToLower\<close> maps \<open>A..Z\<close> to \<open>a..z\<close> and leaves everything else alone, and
  \<open>strings.TrimSpace\<close> strips tab, newline, vertical tab, form feed, carriage return and
  space. The definitions below are the standard-library functions restricted to that
  alphabet.
\<close>

definition isUpperAZ :: "char \<Rightarrow> bool" where
  "isUpperAZ r = (CHR ''A'' \<le> r \<and> r \<le> CHR ''Z'')"

definition isLowerAZ :: "char \<Rightarrow> bool" where
  "isLowerAZ r = (CHR ''a'' \<le> r \<and> r \<le> CHR ''z'')"

definition toLowerRune :: "char \<Rightarrow> char" where
  "toLowerRune r = (if isUpperAZ r then char_of (of_char r + (32::nat)) else r)"

definition ToLower :: "string \<Rightarrow> string" where
  "ToLower s = map toLowerRune s"

definition isSpace :: "char \<Rightarrow> bool" where
  "isSpace c = (c = CHR 0x09 \<or> c = CHR 0x0A \<or> c = CHR 0x0B \<or> c = CHR 0x0C
                \<or> c = CHR 0x0D \<or> c = CHR '' '')"

definition TrimSpace :: "string \<Rightarrow> string" where
  "TrimSpace s = rev (dropWhile isSpace (rev (dropWhile isSpace s)))"

definition HasPrefix :: "string \<Rightarrow> string \<Rightarrow> bool" where
  "HasPrefix s pre = (take (length pre) s = pre)"

definition TrimPrefix :: "string \<Rightarrow> string \<Rightarrow> string" where
  "TrimPrefix s pre = (if HasPrefix s pre then drop (length pre) s else s)"

text \<open>\<open>strings.Contains(s, substr)\<close>: \<open>substr\<close> occurs at some offset of \<open>s\<close>.\<close>

fun Contains :: "string \<Rightarrow> string \<Rightarrow> bool" where
  "Contains [] sub = (sub = [])"
| "Contains (c # cs) sub = (HasPrefix (c # cs) sub \<or> Contains cs sub)"

text \<open>
  \<open>strings.Split(s, sep)\<close> for a one-character separator: the pieces between the
  separators, in order; the empty string gives one empty piece.
\<close>

fun Split :: "string \<Rightarrow> char \<Rightarrow> string list" where
  "Split [] sep = [[]]"
| "Split (c # cs) sep =
     (if c = sep then [] # Split cs sep
      else (case Split cs sep of
              [] \<Rightarrow> [[c]]
            | p # ps \<Rightarrow> (c # p) # ps))"

section \<open>Naming transform (\<open>toSnakeCase\<close> in internal/meta/parse.go)\<close>

text \<open>
  The loop \<open>for i, r := range runes\<close> appends to a builder; \<open>snakeStep runes i\<close> is what
  iteration \<open>i\<close> writes. \<open>runes[i-1]\<close> is only read when \<open>i > 0\<close> and \<open>runes[i+1]\<close> only
  behind the guard \<open>i+1 < len(runes)\<close>, as in the source.
\<close>

definition snakeStep :: "string \<Rightarrow> nat \<Rightarrow> string" where
  "snakeStep runes i =
     (let r = runes ! i in
      if i = 0 then [r]
      else if r = CHR ''_'' then [r]
      else (if isUpperAZ r then
              (if runes ! (i - 1) \<noteq> CHR ''_'' \<and> isLowerAZ (runes ! (i - 1)) then ''_''
               else if runes ! (i - 1) \<noteq> CHR ''_'' \<and> i + 1 < length runes
                       \<and> isLowerAZ (runes ! (i + 1)) then ''_''
               else [])
            else []) @ [r])"

definition toSnakeCase :: "string \<Rightarrow> string" where
  "toSnakeCase s = ToLower (concat (map (snakeStep s) [0..<length s]))"

text \<open>
  The rule as the specification words it: an underscore goes before an uppercase character
  at index \<open>i > 0\<close> only when (a) the previous character is lowercase, or (b) the previous
  character is uppercase and the next character is lowercase.
\<close>

definition specUnderscore :: "string \<Rightarrow> nat \<Rightarrow> bool" where
  "specUnderscore s i =
     (0 < i \<and> isUpperAZ (s ! i) \<and>
      (isLowerAZ (s ! (i - 1)) \<or>
       (isUpperAZ (s ! (i - 1)) \<and> i + 1 < length s \<and> isLowerAZ (s ! (i + 1)))))"

definition toSnakeCase_spec :: "string \<Rightarrow> string" where
  "toSnakeCase_spec s =
     ToLower (concat (map (\<lambda>i. (if specUnderscore s i then ''_'' else []) @ [s ! i])
                          [0..<length s]))"

text \<open>
  The rule the code implements: case (b) asks of the previous character only that it is
  neither an underscore nor a lowercase letter, so a digit qualifies too.
\<close>

definition codeUnderscore :: "string \<Rightarrow> nat \<Rightarrow> bool" where
  "codeUnderscore s i =
     (0 < i \<and> isUpperAZ (s ! i) \<and>
      (isLowerAZ (s ! (i - 1)) \<or>
       (s ! (i - 1) \<noteq> CHR ''_'' \<and> (isLowerAZ (s ! (i - 1)) = False)
        \<and> i + 1 < length s \<and> isLowerAZ (s ! (i + 1)))))"

subsection \<open>Facts about the naming transform\<close>

lemma underscore_not_upper: "isUpperAZ CHR ''_'' = False"
  by (simp add: isUpperAZ_def less_eq_char_def)

lemma underscore_not_lower: "isLowerAZ CHR ''_'' = False"
  by (simp add: isLowerAZ_def less_eq_char_def)

lemma toLowerRune_not_upper: "isUpperAZ (toLowerRune r) = False"
  by (auto simp: toLowerRune_def isUpperAZ_def less_eq_char_def)

lemma ToLower_no_upper: "list_all (\<lambda>c. isUpperAZ c = False) (ToLower s)"
  by (simp add: ToLower_def list_all_iff toLowerRune_not_upper)

lemma snakeStep_char:
  "snakeStep s i = (if codeUnderscore s i then ''_'' else []) @ [s ! i]"
  by (auto simp: snakeStep_def codeUnderscore_def Let_def underscore_not_upper
      underscore_not_lower)

lemma toSnakeCase_char:
  "toSnakeCase s =
     ToLower (concat (map (\<lambda>i. (if codeUnderscore s i then ''_'' else []) @ [s ! i])
                          [0..<length s]))"
proof -
  have "snakeStep s = (\<lambda>i. (if codeUnderscore s i then ''_'' else []) @ [s ! i])"
    by (rule ext) (rule snakeStep_char)
  then show ?thesis by (simp add: toSnakeCase_def)
qed

text \<open>
  C4 (as stated, refuted). The claim allows an underscore before an uppercase character
  only when the previous character is lowercase, or is uppercase with a lowercase
  successor. On \<open>V2Server\<close> the code writes an underscore before \<open>S\<close>, whose predecessor
  \<open>2\<close> is neither; the transform worded as in the claim gives \<open>v2server\<close>.
\<close>

theorem toSnakeCase_digit_counterexample:
  "toSnakeCase ''V2Server'' = ''v2_server'' \<and> toSnakeCase_spec ''V2Server'' = ''v2server''
   \<and> snakeStep ''V2Server'' 2 = ''_S'' \<and> specUnderscore ''V2Server'' 2 = False"
  by code_simp

text \<open>
  C4 (amended). For every string the transform writes the characters in order, puts an
  underscore before the uppercase character at index \<open>i > 0\<close> exactly when (a) the previous
  character is lowercase, or (b) the previous character is neither an underscore nor
  lowercase and the next character is lowercase, never at index 0 and never next to an
  existing underscore on its left, and lower-cases the whole result: no \<open>A..Z\<close> is left.
  \<open>UserName\<close>, \<open>ID\<close>, \<open>Product\<close> and \<open>HTTPServer\<close> map to \<open>user_name\<close>, \<open>id\<close>,
  \<open>product\<close> and \<open>http_server\<close>.
\<close>

theorem toSnakeCase_rule:
  "toSnakeCase s =
     ToLower (concat (map (\<lambda>i. (if codeUnderscore s i then ''_'' else []) @ [s ! i])
                          [0..<length s]))
   \<and> list_all (\<lambda>c. isUpperAZ c = False) (toSnakeCase s)
   \<and> codeUnderscore s 0 = False
   \<and> (s ! (i - 1) = CHR ''_'' \<longrightarrow> codeUnderscore s i = False)
   \<and> toSnakeCase ''UserName'' = ''user_name''
   \<and> toSnakeCase ''ID'' = ''id''
   \<and> toSnakeCase ''Product'' = ''product''
   \<and> toSnakeCase ''HTTPServer'' = ''http_server''"
proof -
  have lower: "list_all (\<lambda>c. isUpperAZ c = False) (toSnakeCase s)"
    unfolding toSnakeCase_def by (rule ToLower_no_upper)
  have zero: "codeUnderscore s 0 = False"
    by (simp add: codeUnderscore_def)
  have adjacent: "s ! (i - 1) = CHR ''_'' \<longrightarrow> codeUnderscore s i = False"
    by (simp add: codeUnderscore_def underscore_not_lower)
  have t1: "toSnakeCase ''UserName'' = ''user_name''" by code_simp
  have t2: "toSnakeCase ''ID'' = ''id''" by code_simp
  have t3: "toSnakeCase ''Product'' = ''product''" by code_simp
  have t4: "toSnakeCase ''HTTPServer'' = ''http_server''" by code_simp
  from toSnakeCase_char lower zero adjacent t1 t2 t3 t4 show ?thesis by blast
qed

theorem toSnakeCase_rule_witness:
  "toSnakeCase ''Foo_BarID2X'' = ''foo_bar_id2x''
   \<and> ''Foo_BarID2X'' ! (4 - 1) = CHR ''_'' \<and> codeUnderscore ''Foo_BarID2X'' 4 = False"
proof -
  have a: "''Foo_BarID2X'' ! (4 - 1) = CHR ''_''" by code_simp
  have b: "codeUnderscore ''Foo_BarID2X'' 4 = False"
    using toSnakeCase_rule [of "''Foo_BarID2X''" 4] a by blast
  have c: "toSnakeCase ''Foo_BarID2X'' = ''foo_bar_id2x''" by code_simp
  from a b c show ?thesis by blast
qed

section \<open>Metadata model (package internal/meta)\<close>

text \<open>
  The structs of the metadata model, one record each. Record fields carry a prefix
  (\<open>fm\<close>, \<open>em\<close>, \<open>am\<close>, ...) because the Go structs share the field names \<open>Name\<close>,
  \<open>Type\<close> and \<open>Index\<close>. A \<open>reflect.Type\<close> kept inside a descriptor is represented by
  the type's \<open>String()\<close>. A nil pointer is \<open>None\<close>.
\<close>

record ForeignKey =
  fkTableName :: string
  fkFieldName :: string

record ManyToMany =
  m2mTableName :: string
  m2mFieldName :: string

record FieldMeta =
  fmName :: string
  fmType :: string
  fmIndex :: "nat list"
  fmIsPK :: bool
  fmFK :: "ForeignKey option"
  fmNested :: bool
  fmM2M :: "ManyToMany option"
  fmList :: bool
  fmHidden :: bool
  fmReadOnly :: bool

record NestedMeta =
  nmName :: string
  nmType :: string
  nmIndex :: "nat list"

record AggregateMeta =
  amName :: string
  amType :: string
  amField :: string

text \<open>
  \<open>emPKField\<close> is the pointer \<open>PKField *FieldMeta\<close>. It always aliases an element of
  \<open>Fields\<close> and neither is written after \<open>Parse\<close> returns, so the model keeps the
  pointed-to value; \<open>fmIndex\<close> tells which declared field it is.
\<close>

record EntityMeta =
  emType :: string
  emName :: string
  emTableName :: string
  emPKField :: "FieldMeta option"
  emFields :: "FieldMeta list"
  emNested :: "NestedMeta list"
  emAggregates :: "AggregateMeta list"

fun findFirst :: "('a \<Rightarrow> bool) \<Rightarrow> 'a list \<Rightarrow> 'a option" where
  "findFirst P [] = None"
| "findFirst P (x # xs) = (if P x then Some x else findFirst P xs)"

definition GetFieldByName :: "EntityMeta \<Rightarrow> string \<Rightarrow> FieldMeta option" where
  "GetFieldByName em name = findFirst (\<lambda>f. fmName f = name) (emFields em)"

definition GetAggregateByName :: "EntityMeta \<Rightarrow> string \<Rightarrow> AggregateMeta option" where
  "GetAggregateByName em name = findFirst (\<lambda>a. amName a = name) (emAggregates em)"

section \<open>Reflection\<close>

text \<open>
  What \<open>Parse\<close> reads through package \<open>reflect\<close>. A struct tag is the list of its
  \<open>key:"value"\<close> pairs in order; \<open>Tag.Get\<close> returns the value of the first pair with the
  key, or the empty string. A field declaration has a name, a package path (empty exactly
  for exported fields), a type and a tag; \<open>t.Field(i)\<close> adds the index \<open>[i]\<close>.
  A type is a struct (with its \<open>String()\<close>, its \<open>Name()\<close> and its fields), a pointer,
  or anything else (with \<open>String()\<close> and \<open>Name()\<close>). \<open>FieldByName\<close> is modelled on the
  fields the struct declares itself.
\<close>

type_synonym StructTag = "(string \<times> string) list"

definition Get :: "StructTag \<Rightarrow> string \<Rightarrow> string" where
  "Get tag key = (case map_of tag key of Some v \<Rightarrow> v | None \<Rightarrow> [])"

record FieldDecl =
  fdName :: string
  fdPkgPath :: string
  fdType :: string
  fdTag :: StructTag

record StructField =
  sfName :: string
  sfPkgPath :: string
  sfType :: string
  sfTag :: StructTag
  sfIndex :: "nat list"

datatype rtype =
    Struct string string "FieldDecl list"
  | Ptr rtype
  | Other string string

fun typeString :: "rtype \<Rightarrow> string" where
  "typeString (Struct str name fs) = str"
| "typeString (Ptr t) = CHR ''*'' # typeString t"
| "typeString (Other str name) = str"

fun typeName :: "rtype \<Rightarrow> string" where
  "typeName (Struct str name fs) = name"
| "typeName (Ptr t) = []"
| "typeName (Other str name) = name"

definition Field :: "FieldDecl list \<Rightarrow> nat \<Rightarrow> StructField" where
  "Field fs i =
     \<lparr>sfName = fdName (fs ! i), sfPkgPath = fdPkgPath (fs ! i), sfType = fdType (fs ! i),
      sfTag = fdTag (fs ! i), sfIndex = [i]\<rparr>"

fun FieldByNameFrom :: "FieldDecl list \<Rightarrow> nat \<Rightarrow> nat \<Rightarrow> string \<Rightarrow> StructField option" where
  "FieldByNameFrom fs i 0 name = None"
| "FieldByNameFrom fs i (Suc n) name =
     (if fdName (fs ! i) = name then Some (Field fs i) else FieldByNameFrom fs (Suc i) n name)"

definition FieldByName :: "FieldDecl list \<Rightarrow> string \<Rightarrow> StructField option" where
  "FieldByName fs name = FieldByNameFrom fs 0 (length fs) name"

section \<open>Parser and registry (internal/meta/parse.go)\<close>

datatype goerror = ErrInvalidDB | ErrRecordNotFound | ErrOther string

datatype panic = NilDereference | NonStructType

text \<open>
  One iteration of the \<open>switch\<close> inside \<open>parseField\<close>, on one fragment of the go-blar
  tag. The \<open>count:\<close> and \<open>sum:\<close> cases build an \<open>AggregateMeta\<close> and drop it
  (\<open>_ = meta\<close>); the field descriptor is unchanged.
\<close>

definition applyPart :: "FieldMeta \<Rightarrow> string \<Rightarrow> FieldMeta" where
  "applyPart fm part0 =
     (let part = TrimSpace part0 in
      if part = ''pk'' then fm\<lparr>fmIsPK := True\<rparr>
      else if part = ''nested'' then fm\<lparr>fmNested := True\<rparr>
      else if part = ''list'' then fm\<lparr>fmList := True\<rparr>
      else if part = ''hidden'' then fm\<lparr>fmHidden := True\<rparr>
      else if part = ''readonly'' then fm\<lparr>fmReadOnly := True\<rparr>
      else if HasPrefix part ''fk:'' then
        fm\<lparr>fmFK := Some \<lparr>fkTableName = TrimPrefix part ''fk:'', fkFieldName = []\<rparr>\<rparr>
      else if HasPrefix part ''m2m:'' then
        fm\<lparr>fmM2M := Some \<lparr>m2mTableName = TrimPrefix part ''m2m:'', m2mFieldName = []\<rparr>\<rparr>
      else if HasPrefix part ''count:'' then
        (let meta = \<lparr>amName = fmName fm, amType = ''count'',
                      amField = TrimPrefix part ''count:''\<rparr>
         in fm)
      else if HasPrefix part ''sum:'' then
        (let meta = \<lparr>amName = fmName fm, amType = ''sum'',
                      amField = TrimPrefix part ''sum:''\<rparr>
         in fm)
      else fm)"

definition parseField :: "StructField \<Rightarrow> FieldMeta" where
  "parseField sf =
     (let blarTag = Get (sfTag sf) ''go-blar'';
          gormTag = Get (sfTag sf) ''gorm'';
          fm = \<lparr>fmName = sfName sf, fmType = sfType sf, fmIndex = sfIndex sf,
                fmIsPK = False, fmFK = None, fmNested = False, fmM2M = None,
                fmList = False, fmHidden = False, fmReadOnly = False\<rparr>;
          fm = (if blarTag \<noteq> [] then foldl applyPart fm (Split blarTag CHR '';'') else fm)
      in if Contains gormTag ''primaryKey'' then fm\<lparr>fmIsPK := True\<rparr> else fm)"

fun gormTableLoop :: "string list \<Rightarrow> string" where
  "gormTableLoop [] = []"
| "gormTableLoop (part0 # rest) =
     (let part = TrimSpace part0 in
      if HasPrefix part ''table:'' then TrimPrefix part ''table:'' else gormTableLoop rest)"

definition parseGormTag :: "string \<Rightarrow> string" where
  "parseGormTag tag = (if tag = [] then [] else gormTableLoop (Split tag CHR '';''))"

text \<open>
  The body of the field loop of \<open>Parse\<close> for index \<open>i\<close>: unexported fields are skipped;
  \<open>parseField\<close> never returns nil, so the descriptor is always appended; a primary-key
  field is assigned to \<open>PKField\<close> unconditionally.
\<close>

definition fieldStep :: "FieldDecl list \<Rightarrow> EntityMeta \<Rightarrow> nat \<Rightarrow> EntityMeta" where
  "fieldStep fs meta i =
     (let sf = Field fs i in
      if sfPkgPath sf \<noteq> [] then meta
      else (let fm = parseField sf;
                meta = meta\<lparr>emFields := emFields meta @ [fm]\<rparr>
            in if fmIsPK fm then meta\<lparr>emPKField := Some fm\<rparr> else meta))"

text \<open>
  Lines 26 to 60 of \<open>Parse\<close>: the descriptor built on a cache miss. \<open>FieldByName\<close> panics on
  a type that is not a struct, which is the first struct-only call \<open>Parse\<close> makes.
\<close>

definition newMeta :: "rtype \<Rightarrow> panic + EntityMeta" where
  "newMeta t =
     (case t of
        Struct str name fs \<Rightarrow>
          (let meta = \<lparr>emType = str, emName = name,
                        emTableName = toSnakeCase name @ ''s'', emPKField = None,
                        emFields = [], emNested = [], emAggregates = []\<rparr>;
               meta = (case FieldByName fs ''gorm'' of
                         None \<Rightarrow> meta
                       | Some gormTag \<Rightarrow>
                           (let tableName = parseGormTag (Get (sfTag gormTag) ''gorm'')
                            in if tableName \<noteq> [] then meta\<lparr>emTableName := tableName\<rparr>
                               else meta))
           in Inr (foldl (fieldStep fs) meta [0..<length fs]))
      | _ \<Rightarrow> Inl NonStructType)"

text \<open>
  The program state \<open>Parse\<close> touches: the \<open>EntityMeta\<close> objects allocated so far (a
  pointer is an index into \<open>heap\<close>) and the package variable \<open>registry\<close>, a map from
  \<open>t.String()\<close> to pointers.
\<close>

record state =
  heap :: "EntityMeta list"
  registry :: "string \<Rightarrow> nat option"

definition elemIfPtr :: "rtype \<Rightarrow> rtype" where
  "elemIfPtr t = (case t of Ptr e \<Rightarrow> e | _ \<Rightarrow> t)"

text \<open>
  \<open>Parse\<close>. The argument is the dynamic type of the \<open>any\<close> value, \<open>None\<close> for a nil
  interface (\<open>reflect.TypeOf\<close> then returns nil and \<open>t.Kind()\<close> panics). The result is
  \<open>Inl\<close> for a panic, which leaves the registry as it was, and otherwise the returned
  pair (pointer, error) with the new state.
\<close>

definition Parse :: "rtype option \<Rightarrow> state \<Rightarrow> panic + ((nat \<times> goerror option) \<times> state)" where
  "Parse entity s =
     (case entity of
        None \<Rightarrow> Inl NilDereference
      | Some t0 \<Rightarrow>
          (let t = elemIfPtr t0; key = typeString t in
           case registry s key of
             Some meta \<Rightarrow> Inr ((meta, None), s)
           | None \<Rightarrow>
               (case newMeta t of
                  Inl p \<Rightarrow> Inl p
                | Inr meta \<Rightarrow>
                    (let a = length (heap s) in
                     Inr ((a, None),
                          s\<lparr>heap := heap s @ [meta], registry := (registry s)(key \<mapsto> a)\<rparr>)))))"

definition ClearRegistry :: "state \<Rightarrow> state" where
  "ClearRegistry s = s\<lparr>registry := Map.empty\<rparr>"



subsection \<open>Reading a result, and the entities used as examples\<close>

text \<open>
  \<open>descriptorOf\<close> dereferences the pointer a call of \<open>Parse\<close> returned, in the state the
  call left. \<open>emptyState\<close> is the program before the first \<open>Parse\<close>, or right after
  \<open>ClearRegistry\<close> on a fresh heap.
\<close>

definition descriptorOf :: "panic + ((nat \<times> goerror option) \<times> state) \<Rightarrow> EntityMeta option" where
  "descriptorOf r =
     (case r of
        Inl p \<Rightarrow> None
      | Inr ((a, err), s') \<Rightarrow> (if a < length (heap s') then Some (heap s' ! a) else None))"

definition emptyState :: state where
  "emptyState = \<lparr>heap = [], registry = Map.empty\<rparr>"


text \<open>The exported fields at the given indices, in that order.\<close>

definition visible :: "FieldDecl list \<Rightarrow> nat list \<Rightarrow> StructField list" where
  "visible fs is = filter (\<lambda>sf. sfPkgPath sf = []) (map (Field fs) is)"

text \<open>The last primary-key descriptor of a list, or the default when there is none.\<close>

definition lastPK :: "FieldMeta option \<Rightarrow> FieldMeta list \<Rightarrow> FieldMeta option" where
  "lastPK d fms = (if filter fmIsPK fms = [] then d else Some (last (filter fmIsPK fms)))"

definition pkName :: "EntityMeta \<Rightarrow> string option" where
  "pkName m = map_option fmName (emPKField m)"

definition pkCandidates :: "EntityMeta \<Rightarrow> string list" where
  "pkCandidates m = map fmName (filter fmIsPK (emFields m))"

definition plainField :: "string \<Rightarrow> string \<Rightarrow> StructTag \<Rightarrow> FieldDecl" where
  "plainField name ty tag = \<lparr>fdName = name, fdPkgPath = [], fdType = ty, fdTag = tag\<rparr>"



text \<open>The join-table entity \<open>ProductToPrice\<close> of the repository's integration test.\<close>

definition ProductToPriceT :: rtype where
  "ProductToPriceT = Struct ''test.ProductToPrice'' ''ProductToPrice''
     [plainField ''ProductID'' ''uint'' [(''gorm'', ''primaryKey'')],
      plainField ''TagID'' ''uint'' [(''gorm'', ''primaryKey'')]]"



text \<open>An entity with the aggregate tags of the README.\<close>

definition OrderT :: rtype where
  "OrderT = Struct ''main.Order'' ''Order''
     [plainField ''ID'' ''uint'' [(''go-blar'', ''pk''), (''gorm'', ''primaryKey'')],
      plainField ''ItemCount'' ''int'' [(''go-blar'', ''count:Items'')],
      plainField ''ItemSum'' ''float64'' [(''go-blar'', ''sum:Items.Price'')],
      plainField ''Items'' ''[]main.Item'' [(''go-blar'', ''list'')]]"


subsection \<open>Facts about the parser\<close>

lemma Contains_prefix: "Contains (sub @ post) sub"
  by (cases "sub @ post") (simp_all add: HasPrefix_def, metis append_eq_conv_conj)

lemma Contains_append: "Contains (pre @ sub @ post) sub"
  by (induction pre) (simp_all add: Contains_prefix)

lemma parseField_gorm:
  "Contains (Get (sfTag sf) ''gorm'') ''primaryKey'' \<Longrightarrow> fmIsPK (parseField sf)"
  by (simp add: parseField_def Let_def)

lemma fieldStep_fields:
  "emFields (fieldStep fs m i) =
     emFields m @ (if sfPkgPath (Field fs i) = [] then [parseField (Field fs i)] else [])"
  by (simp add: fieldStep_def Let_def)

lemma foldl_fields:
  "emFields (foldl (fieldStep fs) m is) = emFields m @ map parseField (visible fs is)"
  by (induction "is" arbitrary: m) (simp_all add: visible_def fieldStep_fields)

lemma fieldStep_pk:
  "emPKField (fieldStep fs m i) =
     lastPK (emPKField m) (if sfPkgPath (Field fs i) = [] then [parseField (Field fs i)] else [])"
  by (simp add: fieldStep_def Let_def lastPK_def)

lemma lastPK_append: "lastPK (lastPK d xs) ys = lastPK d (xs @ ys)"
  by (simp add: lastPK_def)

lemma foldl_pk:
  "emPKField (foldl (fieldStep fs) m is) = lastPK (emPKField m) (map parseField (visible fs is))"
proof (induction "is" arbitrary: m)
  case Nil
  show ?case by (simp add: visible_def lastPK_def)
next
  case (Cons i "is")
  show ?case
    apply (simp add: Cons.IH fieldStep_pk)
    apply (simp add: lastPK_append visible_def)
    done
qed

lemma fieldStep_rest:
  "emTableName (fieldStep fs m i) = emTableName m"
  "emAggregates (fieldStep fs m i) = emAggregates m"
  by (simp_all add: fieldStep_def Let_def)

lemma foldl_rest:
  "emTableName (foldl (fieldStep fs) m is) = emTableName m"
  "emAggregates (foldl (fieldStep fs) m is) = emAggregates m"
  by (induction "is" arbitrary: m) (simp_all add: fieldStep_rest)

lemma newMeta_struct: "\<exists>m. newMeta (Struct str name fs) = Inr m"
  by (simp add: newMeta_def Let_def)

lemma newMeta_fields:
  "newMeta (Struct str name fs) = Inr m \<Longrightarrow>
   emFields m = map parseField (visible fs [0..<length fs])"
  by (auto simp: newMeta_def Let_def foldl_fields split: option.splits)

lemma newMeta_pk:
  "newMeta (Struct str name fs) = Inr m \<Longrightarrow> emPKField m = lastPK None (emFields m)"
  by (auto simp: newMeta_def Let_def foldl_fields foldl_pk split: option.splits)

lemma newMeta_aggregates:
  "newMeta (Struct str name fs) = Inr m \<Longrightarrow> emAggregates m = []"
  by (auto simp: newMeta_def Let_def foldl_rest split: option.splits)





lemma Parse_miss:
  "registry s (typeString (elemIfPtr t0)) = None \<Longrightarrow> newMeta (elemIfPtr t0) = Inr m \<Longrightarrow>
   Parse (Some t0) s =
     Inr ((length (heap s), None),
          s\<lparr>heap := heap s @ [m],
            registry := (registry s)(typeString (elemIfPtr t0) \<mapsto> length (heap s))\<rparr>)"
  by (simp add: Parse_def Let_def)









lemma fresh_descriptor:
  assumes "elemIfPtr t0 = Struct str name fs" and "registry s str = None"
  shows "\<exists>m. newMeta (Struct str name fs) = Inr m
             \<and> descriptorOf (Parse (Some t0) s) = Some m"
proof -
  obtain m where m: "newMeta (Struct str name fs) = Inr m"
    using newMeta_struct by blast
  have "registry s (typeString (elemIfPtr t0)) = None" using assms by simp
  from Parse_miss [OF this] m assms(1)
  have "descriptorOf (Parse (Some t0) s) = Some m"
    by (simp add: descriptorOf_def)
  with m show ?thesis by blast
qed

lemma emptyState_registry: "registry emptyState k = None"
  by (simp add: emptyState_def)


subsection \<open>The registry as a cache\<close>



subsection \<open>Errors of \<open>Parse\<close>\<close>




subsection \<open>Primary key\<close>

text \<open>
  C3 (as stated, refuted). \<open>ProductToPrice\<close> marks both \<open>ProductID\<close> and \<open>TagID\<close> as
  primary key; the descriptor's primary-key reference is \<open>TagID\<close>, the second one.
\<close>

theorem primary_key_first_counterexample:
  "map_option pkCandidates (descriptorOf (Parse (Some ProductToPriceT) emptyState))
     = Some [''ProductID'', ''TagID'']
   \<and> map_option pkName (descriptorOf (Parse (Some ProductToPriceT) emptyState))
     = Some (Some ''TagID'')"
  by code_simp

text \<open>
  C3 (amended). On the first parse of a struct type the descriptor lists the descriptors of
  the exported fields in declaration order, and its primary-key reference is the last of
  them that is marked primary key (every match overwrites the previous one); it is nil
  when none is marked.
\<close>

theorem primary_key_last_wins:
  "elemIfPtr t0 = Struct str name fs \<Longrightarrow> registry s str = None \<Longrightarrow>
   \<exists>m. descriptorOf (Parse (Some t0) s) = Some m
       \<and> emFields m = map parseField (visible fs [0..<length fs])
       \<and> emPKField m = lastPK None (emFields m)"
  using fresh_descriptor newMeta_fields newMeta_pk by blast

theorem primary_key_last_wins_witness:
  "\<exists>m. descriptorOf (Parse (Some ProductToPriceT) emptyState) = Some m
       \<and> map fmName (emFields m) = [''ProductID'', ''TagID'']
       \<and> pkName m = Some ''TagID''"
proof -
  let ?fs = "[plainField ''ProductID'' ''uint'' [(''gorm'', ''primaryKey'')],
              plainField ''TagID'' ''uint'' [(''gorm'', ''primaryKey'')]]"
  have t: "elemIfPtr ProductToPriceT = Struct ''test.ProductToPrice'' ''ProductToPrice'' ?fs"
    by (simp add: ProductToPriceT_def elemIfPtr_def)
  have r: "registry emptyState ''test.ProductToPrice'' = None"
    by (rule emptyState_registry)
  from primary_key_last_wins [OF t r] obtain m where
    m: "descriptorOf (Parse (Some ProductToPriceT) emptyState) = Some m"
       "emFields m = map parseField (visible ?fs [0..<length ?fs])"
       "emPKField m = lastPK None (emFields m)"
    by blast
  have f: "map fmName (map parseField (visible ?fs [0..<length ?fs])) = [''ProductID'', ''TagID'']"
    by code_simp
  have k: "map_option fmName (lastPK None (map parseField (visible ?fs [0..<length ?fs])))
            = Some ''TagID''"
    by code_simp
  from m f k have "map fmName (emFields m) = [''ProductID'', ''TagID'']"
    and "pkName m = Some ''TagID''"
    by (simp_all only: pkName_def)
  with m(1) show ?thesis by (intro exI [of _ m] conjI)
qed

subsection \<open>Table name\<close>




subsection \<open>Aggregates\<close>

text \<open>
  A freshly parsed descriptor never has an aggregate: no statement of \<open>Parse\<close> or
  \<open>parseField\<close> writes \<open>Aggregates\<close>.
\<close>

lemma fresh_descriptor_no_aggregates:
  "elemIfPtr t0 = Struct str name fs \<Longrightarrow> registry s str = None \<Longrightarrow>
   \<exists>m. descriptorOf (Parse (Some t0) s) = Some m \<and> emAggregates m = []
       \<and> GetAggregateByName m n = None"
proof -
  assume "elemIfPtr t0 = Struct str name fs" "registry s str = None"
  then obtain m where m: "newMeta (Struct str name fs) = Inr m"
    "descriptorOf (Parse (Some t0) s) = Some m"
    using fresh_descriptor by blast
  from m(1) have "emAggregates m = []" by (rule newMeta_aggregates)
  then have "GetAggregateByName m n = None" by (simp add: GetAggregateByName_def)
  with m(2) \<open>emAggregates m = []\<close> show ?thesis by blast
qed

text \<open>
  C7 (the code at the failing input). \<open>Order\<close> has a field tagged \<open>count:Items\<close> and one
  tagged \<open>sum:Items.Price\<close>. Both fields are parsed as plain fields; the descriptor's
  aggregate sequence is empty and the aggregate lookup finds nothing.
\<close>

theorem aggregates_dropped:
  "map_option emAggregates (descriptorOf (Parse (Some OrderT) emptyState)) = Some []
   \<and> map_option (map fmName \<circ> emFields) (descriptorOf (Parse (Some OrderT) emptyState))
       = Some [''ID'', ''ItemCount'', ''ItemSum'', ''Items'']
   \<and> Option.bind (descriptorOf (Parse (Some OrderT) emptyState))
        (\<lambda>m. GetAggregateByName m ''ItemCount'') = None
   \<and> Option.bind (descriptorOf (Parse (Some OrderT) emptyState))
        (\<lambda>m. GetAggregateByName m ''ItemSum'') = None"
  by code_simp

subsection \<open>Primary key through the gorm tag\<close>

text \<open>
  C10. Whenever the value of a field's \<open>gorm\<close> tag contains the characters \<open>primaryKey\<close>
  at any position, whatever precedes and follows them, the field descriptor is marked as
  primary key.
\<close>

theorem gorm_primaryKey_anywhere:
  "Get (sfTag sf) ''gorm'' = pre @ ''primaryKey'' @ post \<Longrightarrow> fmIsPK (parseField sf)"
  by (rule parseField_gorm) (simp only: Contains_append)

theorem gorm_primaryKey_anywhere_witness:
  "Get (sfTag (Field [plainField ''Ref'' ''string''
                       [(''gorm'', ''column:primaryKeyName;size:32'')]] 0)) ''gorm''
     = ''column:'' @ ''primaryKey'' @ ''Name;size:32''
   \<and> fmIsPK (parseField (Field [plainField ''Ref'' ''string''
                       [(''gorm'', ''column:primaryKeyName;size:32'')]] 0))
   \<and> list_all (\<lambda>part. TrimSpace part \<noteq> ''primaryKey'')
        (Split ''column:primaryKeyName;size:32'' CHR '';'')"
proof -
  have h: "Get (sfTag (Field [plainField ''Ref'' ''string''
                       [(''gorm'', ''column:primaryKeyName;size:32'')]] 0)) ''gorm''
     = ''column:'' @ ''primaryKey'' @ ''Name;size:32''"
    by code_simp
  have n: "list_all (\<lambda>part. TrimSpace part \<noteq> ''primaryKey'')
        (Split ''column:primaryKeyName;size:32'' CHR '';'')"
    by code_simp
  from gorm_primaryKey_anywhere [OF h] h n show ?thesis by blast
qed

section \<open>Generic repository (package internal/repo)\<close>

text \<open>
  The storage driver handle \<open>*gorm.DB\<close> is external. It is modelled by the operations the
  repository calls on it, each a function of the request context and the database state
  \<open>'d\<close> that returns the driver's error (\<open>None\<close> for nil), what it wrote through the
  pointer it was given, and the new database state. A nil handle is \<open>None\<close>: there is then
  no operation to call. \<open>gorm.ErrInvalidDB\<close> is the error the specification calls
  \<open>NoStorageConfigured\<close>.
\<close>

record ('c, 'd, 'e, 'i) gormDB =
  dbCreate :: "'c \<Rightarrow> 'e \<Rightarrow> 'd \<Rightarrow> (goerror option \<times> 'e) \<times> 'd"
  dbFirst :: "'c \<Rightarrow> 'i \<Rightarrow> 'd \<Rightarrow> (goerror option \<times> 'e) \<times> 'd"
  dbFind :: "'c \<Rightarrow> 'd \<Rightarrow> (goerror option \<times> 'e list) \<times> 'd"
  dbSave :: "'c \<Rightarrow> 'e \<Rightarrow> 'd \<Rightarrow> (goerror option \<times> 'e) \<times> 'd"
  dbDelete :: "'c \<Rightarrow> 'i \<Rightarrow> 'd \<Rightarrow> goerror option \<times> 'd"
  dbCount :: "'c \<Rightarrow> 'd \<Rightarrow> (goerror option \<times> int) \<times> 'd"

record ('c, 'd, 'e, 'i) Repository =
  repoDb :: "('c, 'd, 'e, 'i) gormDB option"
  repoMeta :: nat

definition New :: "('c, 'd, 'e, 'i) gormDB option \<Rightarrow> nat \<Rightarrow> ('c, 'd, 'e, 'i) Repository" where
  "New db meta = \<lparr>repoDb = db, repoMeta = meta\<rparr>"

text \<open>
  \<open>Create\<close> and \<open>Update\<close> return the error together with the entity behind the pointer
  argument; \<open>GetByID\<close> returns (pointer or nil, error); \<open>GetAll\<close> (slice, error), a nil
  slice being the empty list; \<open>Count\<close> (count, error).
\<close>

definition Create ::
  "('c, 'd, 'e, 'i) Repository \<Rightarrow> 'c \<Rightarrow> 'e \<Rightarrow> 'd \<Rightarrow> (goerror option \<times> 'e) \<times> 'd" where
  "Create r ctx entity d =
     (case repoDb r of
        None \<Rightarrow> ((Some ErrInvalidDB, entity), d)
      | Some db \<Rightarrow> dbCreate db ctx entity d)"

definition GetByID ::
  "('c, 'd, 'e, 'i) Repository \<Rightarrow> 'c \<Rightarrow> 'i \<Rightarrow> 'd \<Rightarrow> ('e option \<times> goerror option) \<times> 'd" where
  "GetByID r ctx pk d =
     (case repoDb r of
        None \<Rightarrow> ((None, Some ErrInvalidDB), d)
      | Some db \<Rightarrow>
          (case dbFirst db ctx pk d of
             ((Some err, entity), d') \<Rightarrow> ((None, Some err), d')
           | ((None, entity), d') \<Rightarrow> ((Some entity, None), d')))"

definition GetAll ::
  "('c, 'd, 'e, 'i) Repository \<Rightarrow> 'c \<Rightarrow> 'd \<Rightarrow> ('e list \<times> goerror option) \<times> 'd" where
  "GetAll r ctx d =
     (case repoDb r of
        None \<Rightarrow> (([], Some ErrInvalidDB), d)
      | Some db \<Rightarrow>
          (case dbFind db ctx d of
             ((Some err, entities), d') \<Rightarrow> (([], Some err), d')
           | ((None, entities), d') \<Rightarrow> ((entities, None), d')))"

definition Update ::
  "('c, 'd, 'e, 'i) Repository \<Rightarrow> 'c \<Rightarrow> 'e \<Rightarrow> 'd \<Rightarrow> (goerror option \<times> 'e) \<times> 'd" where
  "Update r ctx entity d =
     (case repoDb r of
        None \<Rightarrow> ((Some ErrInvalidDB, entity), d)
      | Some db \<Rightarrow> dbSave db ctx entity d)"

definition Delete ::
  "('c, 'd, 'e, 'i) Repository \<Rightarrow> 'c \<Rightarrow> 'i \<Rightarrow> 'd \<Rightarrow> goerror option \<times> 'd" where
  "Delete r ctx pk d =
     (case repoDb r of
        None \<Rightarrow> (Some ErrInvalidDB, d)
      | Some db \<Rightarrow> dbDelete db ctx pk d)"

definition Count ::
  "('c, 'd, 'e, 'i) Repository \<Rightarrow> 'c \<Rightarrow> 'd \<Rightarrow> (int \<times> goerror option) \<times> 'd" where
  "Count r ctx d =
     (case repoDb r of
        None \<Rightarrow> ((0, Some ErrInvalidDB), d)
      | Some db \<Rightarrow> (case dbCount db ctx d of ((err, n), d') \<Rightarrow> ((n, err), d')))"

text \<open>
  C8. On a repository whose driver handle is nil, each of \<open>Create\<close>, \<open>GetByID\<close>,
  \<open>GetAll\<close>, \<open>Update\<close>, \<open>Delete\<close> and \<open>Count\<close> returns \<open>ErrInvalidDB\<close> with the zero
  result, and leaves the entity argument and the database state untouched: no storage
  operation runs. Every operation returns a value; none has a panicking or looping branch.
\<close>

theorem repository_without_driver:
  "repoDb r = None \<Longrightarrow>
   Create r ctx entity d = ((Some ErrInvalidDB, entity), d)
   \<and> GetByID r ctx pk d = ((None, Some ErrInvalidDB), d)
   \<and> GetAll r ctx d = (([], Some ErrInvalidDB), d)
   \<and> Update r ctx entity d = ((Some ErrInvalidDB, entity), d)
   \<and> Delete r ctx pk d = (Some ErrInvalidDB, d)
   \<and> Count r ctx d = ((0, Some ErrInvalidDB), d)"
  by (simp add: Create_def GetByID_def GetAll_def Update_def Delete_def Count_def)

theorem repository_without_driver_witness:
  "repoDb (New None 0 :: (unit, string list, string, nat) Repository) = None
   \<and> Create (New None 0 :: (unit, string list, string, nat) Repository) () ''John'' [''Ann'']
       = ((Some ErrInvalidDB, ''John''), [''Ann''])
   \<and> Count (New None 0 :: (unit, string list, string, nat) Repository) () [''Ann'']
       = ((0, Some ErrInvalidDB), [''Ann''])"
proof -
  have h: "repoDb (New None 0 :: (unit, string list, string, nat) Repository) = None"
    by (simp add: New_def)
  from repository_without_driver [OF h, of "()" "''John''" "[''Ann'']"] h
  show ?thesis by simp
qed

section \<open>Hook dispatcher (internal/hooks/hooks.go)\<close>

text \<open>
  An entity instance is seen through its method set: for each of the six single-method
  interfaces of package goblar, the method if the dynamic type has it, else \<open>None\<close> (the
  type assertion fails; a nil interface has no method). A hook method is a function of
  the context, the transaction handle and the program state \<open>'w\<close> it may change (the
  entity's own fields included), returning its error and the new state. The dispatcher
  runs on a pair of that state and a log of method invocations, which \<open>invoke\<close> extends
  by one entry per call of a hook method.
\<close>

datatype hookPoint =
  BeforeCreate | AfterCreate | BeforeUpdate | AfterUpdate | BeforeDelete | AfterDelete

type_synonym ('c, 't, 'w) hook = "'c \<Rightarrow> 't \<Rightarrow> 'w \<Rightarrow> goerror option \<times> 'w"

record ('c, 't, 'w) entity =
  beforeCreate :: "('c, 't, 'w) hook option"
  afterCreate :: "('c, 't, 'w) hook option"
  beforeUpdate :: "('c, 't, 'w) hook option"
  afterUpdate :: "('c, 't, 'w) hook option"
  beforeDelete :: "('c, 't, 'w) hook option"
  afterDelete :: "('c, 't, 'w) hook option"

definition invoke ::
  "hookPoint \<Rightarrow> ('c, 't, 'w) hook \<Rightarrow> 'c \<Rightarrow> 't \<Rightarrow> 'w \<times> hookPoint list
     \<Rightarrow> goerror option \<times> ('w \<times> hookPoint list)" where
  "invoke hp h ctx tx s = (fst (h ctx tx (fst s)), (snd (h ctx tx (fst s)), snd s @ [hp]))"

definition CallBeforeCreate ::
  "'c \<Rightarrow> ('c, 't, 'w) entity \<Rightarrow> 't \<Rightarrow> 'w \<times> hookPoint list
     \<Rightarrow> goerror option \<times> ('w \<times> hookPoint list)" where
  "CallBeforeCreate ctx e tx s =
     (case beforeCreate e of Some h \<Rightarrow> invoke BeforeCreate h ctx tx s | None \<Rightarrow> (None, s))"

definition CallAfterCreate ::
  "'c \<Rightarrow> ('c, 't, 'w) entity \<Rightarrow> 't \<Rightarrow> 'w \<times> hookPoint list
     \<Rightarrow> goerror option \<times> ('w \<times> hookPoint list)" where
  "CallAfterCreate ctx e tx s =
     (case afterCreate e of Some h \<Rightarrow> invoke AfterCreate h ctx tx s | None \<Rightarrow> (None, s))"

definition CallBeforeUpdate ::
  "'c \<Rightarrow> ('c, 't, 'w) entity \<Rightarrow> 't \<Rightarrow> 'w \<times> hookPoint list
     \<Rightarrow> goerror option \<times> ('w \<times> hookPoint list)" where
  "CallBeforeUpdate ctx e tx s =
     (case beforeUpdate e of Some h \<Rightarrow> invoke BeforeUpdate h ctx tx s | None \<Rightarrow> (None, s))"

definition CallAfterUpdate ::
  "'c \<Rightarrow> ('c, 't, 'w) entity \<Rightarrow> 't \<Rightarrow> 'w \<times> hookPoint list
     \<Rightarrow> goerror option \<times> ('w \<times> hookPoint list)" where
  "CallAfterUpdate ctx e tx s =
     (case afterUpdate e of Some h \<Rightarrow> invoke AfterUpdate h ctx tx s | None \<Rightarrow> (None, s))"

definition CallBeforeDelete ::
  "'c \<Rightarrow> ('c, 't, 'w) entity \<Rightarrow> 't \<Rightarrow> 'w \<times> hookPoint list
     \<Rightarrow> goerror option \<times> ('w \<times> hookPoint list)" where
  "CallBeforeDelete ctx e tx s =
     (case beforeDelete e of Some h \<Rightarrow> invoke BeforeDelete h ctx tx s | None \<Rightarrow> (None, s))"

definition CallAfterDelete ::
  "'c \<Rightarrow> ('c, 't, 'w) entity \<Rightarrow> 't \<Rightarrow> 'w \<times> hookPoint list
     \<Rightarrow> goerror option \<times> ('w \<times> hookPoint list)" where
  "CallAfterDelete ctx e tx s =
     (case afterDelete e of Some h \<Rightarrow> invoke AfterDelete h ctx tx s | None \<Rightarrow> (None, s))"

text \<open>The six dispatch operations and the six interfaces, indexed by lifecycle point.\<close>

fun Call ::
  "hookPoint \<Rightarrow> 'c \<Rightarrow> ('c, 't, 'w) entity \<Rightarrow> 't \<Rightarrow> 'w \<times> hookPoint list
     \<Rightarrow> goerror option \<times> ('w \<times> hookPoint list)" where
  "Call BeforeCreate = CallBeforeCreate"
| "Call AfterCreate = CallAfterCreate"
| "Call BeforeUpdate = CallBeforeUpdate"
| "Call AfterUpdate = CallAfterUpdate"
| "Call BeforeDelete = CallBeforeDelete"
| "Call AfterDelete = CallAfterDelete"

fun implements :: "('c, 't, 'w) entity \<Rightarrow> hookPoint \<Rightarrow> ('c, 't, 'w) hook option" where
  "implements e BeforeCreate = beforeCreate e"
| "implements e AfterCreate = afterCreate e"
| "implements e BeforeUpdate = beforeUpdate e"
| "implements e AfterUpdate = afterUpdate e"
| "implements e BeforeDelete = beforeDelete e"
| "implements e AfterDelete = afterDelete e"

text \<open>
  \<open>MockEntityWithHooks\<close> and \<open>SimpleEntity\<close> of hooks_test.go. Each method of the mock
  sets its flag and fails when \<open>ShouldFail\<close> is set.
\<close>

record mock =
  BeforeCreateCalled :: bool
  AfterCreateCalled :: bool
  BeforeUpdateCalled :: bool
  AfterUpdateCalled :: bool
  BeforeDeleteCalled :: bool
  AfterDeleteCalled :: bool
  ShouldFail :: bool

definition mockHook :: "(mock \<Rightarrow> mock) \<Rightarrow> string \<Rightarrow> (unit, unit, mock) hook" where
  "mockHook setFlag msg ctx tx m =
     (if ShouldFail (setFlag m) then Some (ErrOther msg) else None, setFlag m)"

definition MockEntityWithHooks :: "(unit, unit, mock) entity" where
  "MockEntityWithHooks =
     \<lparr>beforeCreate = Some (mockHook (\<lambda>m. m\<lparr>BeforeCreateCalled := True\<rparr>) ''before create failed''),
      afterCreate = Some (mockHook (\<lambda>m. m\<lparr>AfterCreateCalled := True\<rparr>) ''after create failed''),
      beforeUpdate = Some (mockHook (\<lambda>m. m\<lparr>BeforeUpdateCalled := True\<rparr>) ''before update failed''),
      afterUpdate = Some (mockHook (\<lambda>m. m\<lparr>AfterUpdateCalled := True\<rparr>) ''after update failed''),
      beforeDelete = Some (mockHook (\<lambda>m. m\<lparr>BeforeDeleteCalled := True\<rparr>) ''before delete failed''),
      afterDelete = Some (mockHook (\<lambda>m. m\<lparr>AfterDeleteCalled := True\<rparr>) ''after delete failed'')\<rparr>"

definition SimpleEntity :: "(unit, unit, mock) entity" where
  "SimpleEntity =
     \<lparr>beforeCreate = None, afterCreate = None, beforeUpdate = None, afterUpdate = None,
      beforeDelete = None, afterDelete = None\<rparr>"

definition mockZero :: mock where
  "mockZero =
     \<lparr>BeforeCreateCalled = False, AfterCreateCalled = False, BeforeUpdateCalled = False,
      AfterUpdateCalled = False, BeforeDeleteCalled = False, AfterDeleteCalled = False,
      ShouldFail = False\<rparr>"

text \<open>Dispatching at several lifecycle points in sequence, whatever each call returns.\<close>

fun CallEach ::
  "hookPoint list \<Rightarrow> 'c \<Rightarrow> ('c, 't, 'w) entity \<Rightarrow> 't \<Rightarrow> 'w \<times> hookPoint list
     \<Rightarrow> 'w \<times> hookPoint list" where
  "CallEach [] ctx e tx s = s"
| "CallEach (hp # hps) ctx e tx s = CallEach hps ctx e tx (snd (Call hp ctx e tx s))"

text \<open>
  C9. For each of the six dispatch operations and every entity instance: if the instance
  has the hook method, the method runs exactly once (the invocation log grows by exactly
  that one entry, and the state is the one a single run of the method leaves) and its
  error or success is returned unchanged; if it has not, the dispatch returns nil and
  neither the state nor the invocation log changes.
\<close>

theorem hook_dispatch:
  "(implements e hp = Some h \<longrightarrow>
      Call hp ctx e tx (w, log) = (fst (h ctx tx w), (snd (h ctx tx w), log @ [hp])))
   \<and> (implements e hp = None \<longrightarrow> Call hp ctx e tx (w, log) = (None, (w, log)))"
  by (cases hp)
     (simp_all add: CallBeforeCreate_def CallAfterCreate_def CallBeforeUpdate_def
        CallAfterUpdate_def CallBeforeDelete_def CallAfterDelete_def invoke_def)

theorem hook_dispatch_witness:
  "implements MockEntityWithHooks BeforeCreate
     = Some (mockHook (\<lambda>m. m\<lparr>BeforeCreateCalled := True\<rparr>) ''before create failed'')
   \<and> Call BeforeCreate () MockEntityWithHooks () (mockZero, [])
     = (None, (mockZero\<lparr>BeforeCreateCalled := True\<rparr>, [BeforeCreate]))
   \<and> Call BeforeCreate () MockEntityWithHooks () (mockZero\<lparr>ShouldFail := True\<rparr>, [])
     = (Some (ErrOther ''before create failed''),
        (mockZero\<lparr>BeforeCreateCalled := True, ShouldFail := True\<rparr>, [BeforeCreate]))
   \<and> implements SimpleEntity BeforeCreate = None
   \<and> Call BeforeCreate () SimpleEntity () (mockZero, []) = (None, (mockZero, []))
   \<and> CallEach [BeforeCreate, AfterCreate, BeforeUpdate, AfterUpdate, BeforeDelete, AfterDelete]
       () MockEntityWithHooks () (mockZero, [])
     = (\<lparr>BeforeCreateCalled = True, AfterCreateCalled = True, BeforeUpdateCalled = True,
         AfterUpdateCalled = True, BeforeDeleteCalled = True, AfterDeleteCalled = True,
         ShouldFail = False\<rparr>,
        [BeforeCreate, AfterCreate, BeforeUpdate, AfterUpdate, BeforeDelete, AfterDelete])"
proof -
  let ?h = "mockHook (\<lambda>m. m\<lparr>BeforeCreateCalled := True\<rparr>) ''before create failed''"
  have i: "implements MockEntityWithHooks BeforeCreate = Some ?h"
    by (simp add: MockEntityWithHooks_def)
  have n: "implements SimpleEntity BeforeCreate = None"
    by (simp add: SimpleEntity_def)
  have a: "Call BeforeCreate () MockEntityWithHooks () (mockZero, [])
     = (None, (mockZero\<lparr>BeforeCreateCalled := True\<rparr>, [BeforeCreate]))"
    using hook_dispatch [of MockEntityWithHooks BeforeCreate ?h "()" "()" mockZero "[]"] i
    by (simp add: mockHook_def mockZero_def)
  have b: "Call BeforeCreate () MockEntityWithHooks () (mockZero\<lparr>ShouldFail := True\<rparr>, [])
     = (Some (ErrOther ''before create failed''),
        (mockZero\<lparr>BeforeCreateCalled := True, ShouldFail := True\<rparr>, [BeforeCreate]))"
    using hook_dispatch [of MockEntityWithHooks BeforeCreate ?h "()" "()"
        "mockZero\<lparr>ShouldFail := True\<rparr>" "[]"] i
    by (simp add: mockHook_def mockZero_def)
  have c: "Call BeforeCreate () SimpleEntity () (mockZero, []) = (None, (mockZero, []))"
    using hook_dispatch [of SimpleEntity BeforeCreate _ "()" "()" mockZero "[]"] n
    by simp
  have d: "CallEach [BeforeCreate, AfterCreate, BeforeUpdate, AfterUpdate, BeforeDelete, AfterDelete]
       () MockEntityWithHooks () (mockZero, [])
     = (\<lparr>BeforeCreateCalled = True, AfterCreateCalled = True, BeforeUpdateCalled = True,
         AfterUpdateCalled = True, BeforeDeleteCalled = True, AfterDeleteCalled = True,
         ShouldFail = False\<rparr>,
        [BeforeCreate, AfterCreate, BeforeUpdate, AfterUpdate, BeforeDelete, AfterDelete])"
    by (simp add: CallBeforeCreate_def CallAfterCreate_def CallBeforeUpdate_def
        CallAfterUpdate_def CallBeforeDelete_def CallAfterDelete_def invoke_def
        MockEntityWithHooks_def mockHook_def mockZero_def)
  from i a b n c d show ?thesis by (intro conjI)
qed

section \<open>Route registration (package http)\<close>

text \<open>
  The router is the list of routes registered so far, each a verb, a pattern and the
  handler built for it. \<open>toURLPath\<close> ranges over the name; for the rune \<open>r\<close> at index
  \<open>i\<close> it appends a hyphen when \<open>i > 0\<close> and \<open>r\<close> is uppercase, and then the byte
  \<open>byte(r + 'a' - 'A' + 1)\<close>, that is \<open>r + 33\<close> modulo 256, for every rune.
\<close>

datatype verb = POST | GET | PUT | DELETE

datatype handler = CreateHandler | ListHandler | GetHandler | UpdateHandler | DeleteHandler

record route =
  rtVerb :: verb
  rtPattern :: string
  rtHandler :: handler

definition urlStep :: "nat \<Rightarrow> char \<Rightarrow> string" where
  "urlStep i r =
     (if 0 < i \<and> isUpperAZ r then ''-'' else []) @ [char_of (of_char r + (33::nat))]"

definition toURLPath :: "string \<Rightarrow> string" where
  "toURLPath s = concat (map (\<lambda>i. urlStep i (s ! i)) [0..<length s])"

definition RegisterEntityRoutes :: "route list \<Rightarrow> EntityMeta \<Rightarrow> route list" where
  "RegisterEntityRoutes router meta =
     (let resourceName = toURLPath (emName meta) in
      router @
      [\<lparr>rtVerb = POST, rtPattern = ''/'' @ resourceName, rtHandler = CreateHandler\<rparr>,
       \<lparr>rtVerb = GET, rtPattern = ''/'' @ resourceName, rtHandler = ListHandler\<rparr>,
       \<lparr>rtVerb = GET, rtPattern = ''/'' @ resourceName @ ''/{id}'', rtHandler = GetHandler\<rparr>,
       \<lparr>rtVerb = PUT, rtPattern = ''/'' @ resourceName @ ''/{id}'', rtHandler = UpdateHandler\<rparr>,
       \<lparr>rtVerb = DELETE, rtPattern = ''/'' @ resourceName @ ''/{id}'',
         rtHandler = DeleteHandler\<rparr>])"

definition namedMeta :: "string \<Rightarrow> EntityMeta" where
  "namedMeta name =
     \<lparr>emType = ''main.'' @ name, emName = name, emTableName = toSnakeCase name @ ''s'',
      emPKField = None, emFields = [], emNested = [], emAggregates = []\<rparr>"

text \<open>Five routes are added, with these verbs, handlers and pattern shapes.\<close>

lemma RegisterEntityRoutes_shape:
  "map rtVerb (RegisterEntityRoutes [] meta) = [POST, GET, GET, PUT, DELETE]
   \<and> map rtHandler (RegisterEntityRoutes [] meta)
       = [CreateHandler, ListHandler, GetHandler, UpdateHandler, DeleteHandler]
   \<and> map rtPattern (RegisterEntityRoutes [] meta)
       = [''/'' @ toURLPath (emName meta), ''/'' @ toURLPath (emName meta),
          ''/'' @ toURLPath (emName meta) @ ''/{id}'',
          ''/'' @ toURLPath (emName meta) @ ''/{id}'',
          ''/'' @ toURLPath (emName meta) @ ''/{id}'']"
  by (simp add: RegisterEntityRoutes_def Let_def)

text \<open>
  C6 (the code at the failing input). For the entity named \<open>User\<close> the resource segment
  is not \<open>user\<close>: every byte is shifted by 33, giving the bytes 0x76 0x94 0x86 0x93, and
  the five routes are registered on that segment.
\<close>

theorem resource_segment_shifted:
  "toURLPath ''User'' = [CHR 0x76, CHR 0x94, CHR 0x86, CHR 0x93]
   \<and> ToLower ''User'' = ''user''
   \<and> map rtPattern (RegisterEntityRoutes [] (namedMeta ''User''))
       = [[CHR ''/'', CHR 0x76, CHR 0x94, CHR 0x86, CHR 0x93],
          [CHR ''/'', CHR 0x76, CHR 0x94, CHR 0x86, CHR 0x93],
          [CHR ''/'', CHR 0x76, CHR 0x94, CHR 0x86, CHR 0x93] @ ''/{id}'',
          [CHR ''/'', CHR 0x76, CHR 0x94, CHR 0x86, CHR 0x93] @ ''/{id}'',
          [CHR ''/'', CHR 0x76, CHR 0x94, CHR 0x86, CHR 0x93] @ ''/{id}'']
   \<and> map rtVerb (RegisterEntityRoutes [] (namedMeta ''User'')) = [POST, GET, GET, PUT, DELETE]"
  by code_simp

end
